theory Spec2Isabelle
  imports Main
begin

section \<open>Data model\<close>

text \<open>
  The records follow the TypeScript interfaces of the backend
  (\<^verbatim>\<open>interfaces/factCheckResult.ts\<close>, \<^verbatim>\<open>interfaces/transcript.ts\<close>).
  A JavaScript string is modelled as a \<^typ>\<open>string\<close>: the list of its code units, restricted to
  the code units below 256. The numeric fields of a transcript segment are never read by the
  code modelled here, so their type is a parameter of the record.
\<close>

record Claim =
  claim :: string
  isAccurate :: bool
  explanation :: string

record Source =
  title :: string
  url :: string
  snippet :: string

text \<open>\<^verbatim>\<open>sources?\<close> is an optional field: \<^term>\<open>None\<close> is the absent (undefined) field.\<close>

record FactCheck =
  claims :: "Claim list"
  sources :: "Source list option"

record FactCheckResult =
  normalizedTranscript :: string
  isFinancial :: bool
  isMisleading :: bool
  factCheck :: FactCheck

record 'n TranscriptSegment =
  segText :: string
  start :: 'n
  duration :: "'n option"
  lang :: string

text \<open>
  A transcript is \<^verbatim>\<open>Record<string, TranscriptSegment[] | string>\<close>: a language code is
  absent, or bound to an array of segments, or bound to a placeholder string.
\<close>

datatype 'n TranscriptEntry =
  Segments "'n TranscriptSegment list"
  | Placeholder string

type_synonym 'n Transcript = "string \<rightharpoonup> 'n TranscriptEntry"

section \<open>Shared expressions\<close>


text \<open>\<^verbatim>\<open>claims.some(claim => !claim.isAccurate)\<close>\<close>

definition someInaccurate :: "Claim list \<Rightarrow> bool" where
  "someInaccurate cs = list_ex (\<lambda>c. \<not> isAccurate c) cs"

text \<open>\<^verbatim>\<open>sources || []\<close>: an array is truthy even when empty, so only the absent field is replaced.\<close>

definition sourcesOrEmpty :: "Source list option \<Rightarrow> Source list" where
  "sourcesOrEmpty s = (case s of None \<Rightarrow> [] | Some xs \<Rightarrow> xs)"

section \<open>JavaScript string operations\<close>

text \<open>
  \<^verbatim>\<open>String.prototype.trim\<close> removes white space and line terminators from both ends. Among the
  code units below 256 these are TAB, LF, VT, FF, CR, SPACE and NBSP.
\<close>

definition isWhiteSpace :: "char \<Rightarrow> bool" where
  "isWhiteSpace c = (c \<in> {CHR 0x09, CHR 0x0A, CHR 0x0B, CHR 0x0C, CHR 0x0D, CHR 0x20, CHR 0xA0})"

definition trim :: "string \<Rightarrow> string" where
  "trim s = rev (dropWhile isWhiteSpace (rev (dropWhile isWhiteSpace s)))"

text \<open>\<^verbatim>\<open>Array.prototype.join(sep)\<close> on an array of strings.\<close>

fun joinWith :: "string \<Rightarrow> string list \<Rightarrow> string" where
  "joinWith sep [] = []"
| "joinWith sep [x] = x"
| "joinWith sep (x # y # ys) = x @ sep @ joinWith sep (y # ys)"

text \<open>\<^verbatim>\<open>s.startsWith(p)\<close> and \<^verbatim>\<open>s.includes(sub)\<close>\<close>

definition startsWith :: "string \<Rightarrow> string \<Rightarrow> bool" where
  "startsWith s p = (take (length p) s = p)"

fun includesStr :: "string \<Rightarrow> string \<Rightarrow> bool" where
  "includesStr [] sub = (sub = [])"
| "includesStr (c # cs) sub = (startsWith (c # cs) sub \<or> includesStr cs sub)"

text \<open>\<^verbatim>\<open>s.replace(/"/g, '\\"')\<close>: every double quote becomes a backslash and a double quote.\<close>

definition escapeQuotes :: "string \<Rightarrow> string" where
  "escapeQuotes s = concat (map (\<lambda>c. if c = CHR 0x22 then [CHR 0x5C, CHR 0x22] else [c]) s)"

section \<open>Collaborators, failures and effects\<close>

text \<open>
  The generative model and the retrieval service are outside the program. Each is a function
  from the request to what the \<^verbatim>\<open>pRetry\<close>-wrapped call finally yields.

  For the generative model the reply also covers the cleaning of the response text and
  \<^verbatim>\<open>JSON.parse\<close>: the call is rejected after its retries, or the text is not JSON, or the
  parsed value lacks \<^verbatim>\<open>factCheck.claims\<close> (reading it raises a TypeError), or it is a value
  of the declared type \<^verbatim>\<open>FactCheckResult\<close>.

  For the retrieval service the call is rejected after its retries, or the response has no
  data object, or it carries \<^verbatim>\<open>{ answer, passages }\<close>, where \<^verbatim>\<open>passages\<close> is \<^term>\<open>None\<close>
  when it is not an array (reading \<^verbatim>\<open>passages.map\<close> raises a TypeError). A passage has the
  fields of a \<^typ>\<open>Source\<close>.

  The error log is outside the program too: \<open>logAppend\<close> says for which messages the call
  of \<^verbatim>\<open>logError\<close> returns; for the others \<^verbatim>\<open>fs.appendFileSync\<close> throws.
\<close>

datatype geminiReply =
  GenerateRejected
  | NotJson
  | MissingClaims
  | Parsed FactCheckResult

record RagData =
  answer :: string
  passages :: "Source list option"

datatype ragReply =
  PostRejected
  | NoData
  | Data RagData

record env =
  generateContent :: "string \<Rightarrow> geminiReply"
  ragPost :: "string \<Rightarrow> ragReply"
  logAppend :: "string \<Rightarrow> bool"

text \<open>
  What is thrown inside a \<^verbatim>\<open>try\<close> block, what \<^verbatim>\<open>fs.appendFileSync\<close> throws, and
  \<^verbatim>\<open>new Error(message)\<close>.
\<close>

datatype error =
  RetriesExhausted
  | SyntaxError
  | TypeError
  | AppendFailed
  | Error string

text \<open>
  The effects of a run, by component in dispatch order: a request to the generative model
  (with its prompt), a query to the retrieval service, a line appended by \<^verbatim>\<open>logError\<close>
  (with its message). One event stands for the \<^verbatim>\<open>pRetry\<close>-wrapped call, whatever the number
  of attempts.
\<close>

datatype event =
  GenerateContent string
  | RagPost string
  | LogError string

text \<open>
  \<^verbatim>\<open>logError(message, data)\<close>: the line is appended, or the append throws and nothing is
  returned. The result is the effect and what is thrown, if anything.
\<close>

definition logError :: "env \<Rightarrow> string \<Rightarrow> event list \<times> error option" where
  "logError e message =
     (if logAppend e message then ([LogError message], None) else ([], Some AppendFailed))"

text \<open>
  The verdict written out four times in the source: not financial, not misleading, no claims
  and no sources, with the given transcript text.
\<close>

definition neutralVerdict :: "string \<Rightarrow> FactCheckResult" where
  "neutralVerdict t =
     \<lparr> normalizedTranscript = t,
       isFinancial = False,
       isMisleading = False,
       factCheck = \<lparr> claims = [], sources = Some [] \<rparr> \<rparr>"

section \<open>The claim extractor\<close>

text \<open>The prompt template of \<^verbatim>\<open>runGeminiFactCheck\<close>, line by line, around the interpolated input.\<close>

definition promptHeadLines :: "string list" where
  \<open>promptHeadLines =
    ['''',
     ''You are a professional transcript normalizer and fact-checker. Your task is to process the provided transcript and return a structured JSON response with the following:'',
     '''',
     ''1. **Normalized Transcript**: Convert the transcript into a single, cohesive English paragraph. Follow these steps:'',
     ''   - Translate non-English text to English, preserving meaning.'',
     ''   - Fix grammatical errors and improve sentence structure.'',
     ''   - Remove filler words (e.g., "uh", "um") and repetitive phrases unless they add meaning.'',
     ''   - For songs or repetitive content, include all unique content in a natural paragraph.'',
     ''   - If the input is empty, return a brief message indicating the issue.'',
     '''',
     ''2. **Financial Detection**: Analyze the transcript for financial content (e.g., stocks, investments, prices). Return a boolean for "isFinancial".'',
     '''',
     ''3. **Fact-Checking**:'',
     ''   - If isFinancial is false, return factCheck as { claims: [], sources: [] }.'',
     ''   - If isFinancial is true:'',
     ''     - Identify up to 3 major claims.'',
     ''     - For each claim, provide:'',
     ''       - claim: Verbatim claim (e.g., "10gm gold was 3000 Rs in 2015").'',
     ''       - isAccurate: Boolean indicating if the claim is correct.'',
     ''       - explanation: A 100-200 word explanation of accuracy, including evidence, context, and caveats.'',
     ''     - Provide up to 5 credible sources at the factCheck level with title, URL, and snippet.'',
     '''',
     ''Return only the JSON object.'',
     '''',
     ''Input: "'']\<close>

definition promptTailLines :: "string list" where
  \<open>promptTailLines =
    [''"'',
     ''Output format: {'',
     ''  "normalizedTranscript": "string",'',
     ''  "isFinancial": boolean,'',
     ''  "isMisleading": boolean,'',
     ''  "factCheck": {'',
     ''    "claims": Array<{ "claim": string, "isAccurate": boolean, "explanation": string }>,'',
     ''    "sources": Array<{ "title": string, "url": string, "snippet": string }>'',
     ''  }'',
     ''}'',
     '''']\<close>

text \<open>The prompt reads \<^verbatim>\<open>combinedText\<close> only; \<^verbatim>\<open>context\<close> is a parameter the template never uses.\<close>

definition geminiPrompt :: "string \<Rightarrow> string \<Rightarrow> string" where
  "geminiPrompt combinedText context =
     joinWith [CHR 0x0A] promptHeadLines @ escapeQuotes combinedText @ joinWith [CHR 0x0A] promptTailLines"

text \<open>The body of the \<^verbatim>\<open>try\<close> block, after the call: the post-processing of the parsed value.\<close>

definition geminiPostProcess :: "FactCheckResult \<Rightarrow> FactCheckResult" where
  "geminiPostProcess parsedResult =
     (let cs = map (\<lambda>c. \<lparr> claim = claim c, isAccurate = isAccurate c, explanation = explanation c \<rparr>)
                 (claims (factCheck parsedResult))
      in parsedResult
           \<lparr> isMisleading := someInaccurate cs,
             factCheck := \<lparr> claims = cs,
                            sources = Some (sourcesOrEmpty (sources (factCheck parsedResult))) \<rparr> \<rparr>)"

definition runGeminiFactCheck_try :: "env \<Rightarrow> string \<Rightarrow> error + FactCheckResult" where
  "runGeminiFactCheck_try e prompt =
     (case generateContent e prompt of
        GenerateRejected \<Rightarrow> Inl RetriesExhausted
      | NotJson \<Rightarrow> Inl SyntaxError
      | MissingClaims \<Rightarrow> Inl TypeError
      | Parsed parsedResult \<Rightarrow> Inr (geminiPostProcess parsedResult))"

definition runGeminiFactCheck :: "env \<Rightarrow> string \<Rightarrow> string \<Rightarrow> event list \<times> (error + FactCheckResult)" where
  "runGeminiFactCheck e combinedText context =
     (let prompt = geminiPrompt combinedText context in
      case runGeminiFactCheck_try e prompt of
        Inr parsedResult \<Rightarrow> ([GenerateContent prompt], Inr parsedResult)
      | Inl err \<Rightarrow>
          (case logError e ''Gemini fact-check failed'' of
             (logged, None) \<Rightarrow>
               (GenerateContent prompt # logged,
                Inl (Error ''Failed to process transcript with Gemini''))
           | (logged, Some thrown) \<Rightarrow> (GenerateContent prompt # logged, Inl thrown)))"

section \<open>The grounded fact source\<close>

definition OUT_OF_CONTEXT :: string where
  "OUT_OF_CONTEXT = ''OUT OF CONTEXT''"

definition ragClaim :: "Source \<Rightarrow> Claim" where
  "ragClaim p =
     \<lparr> claim = title p,
       isAccurate = True,
       explanation = ''Based on recent financial news: '' @ snippet p @ '' (Source: '' @ url p @ '')'' \<rparr>"

definition runRAGFactCheck_try :: "env \<Rightarrow> string \<Rightarrow> error + FactCheckResult" where
  "runRAGFactCheck_try e combinedText =
     (case ragPost e combinedText of
        PostRejected \<Rightarrow> Inl RetriesExhausted
      | NoData \<Rightarrow> Inl TypeError
      | Data d \<Rightarrow>
          (case passages d of
             None \<Rightarrow> Inl TypeError
           | Some ps \<Rightarrow>
               (let normalized =
                      (if answer d = OUT_OF_CONTEXT then combinedText
                       else if length ps > 0 then joinWith '' '' (map snippet ps)
                       else combinedText);
                    financial = (answer d \<noteq> OUT_OF_CONTEXT \<and> length ps > 0);
                    cs = (if answer d = OUT_OF_CONTEXT then [] else map ragClaim ps)
                in Inr \<lparr> normalizedTranscript = normalized,
                         isFinancial = financial,
                         isMisleading = someInaccurate cs,
                         factCheck =
                           \<lparr> claims = cs,
                             sources = Some (map (\<lambda>p. \<lparr> title = title p, url = url p, snippet = snippet p \<rparr>) ps) \<rparr> \<rparr>)))"

definition runRAGFactCheck :: "env \<Rightarrow> string \<Rightarrow> event list \<times> (error + FactCheckResult)" where
  "runRAGFactCheck e combinedText =
     (case runRAGFactCheck_try e combinedText of
        Inr r \<Rightarrow> ([RagPost combinedText], Inr r)
      | Inl err \<Rightarrow>
          (case logError e ''RAG fact-check failed'' of
             (logged, None) \<Rightarrow> (RagPost combinedText # logged, Inr (neutralVerdict combinedText))
           | (logged, Some thrown) \<Rightarrow> (RagPost combinedText # logged, Inl thrown)))"

section \<open>The segment aggregator\<close>

definition languages :: "string list" where
  "languages = [''en'', ''hi'', ''ta'', ''bn'', ''mr'']"

text \<open>
  \<^verbatim>\<open>transcript[lang] && Array.isArray(transcript[lang])\<close>: an array is truthy even when
  empty, a placeholder string is not an array, an absent key is undefined.
\<close>

definition isSegmentArray :: "'n Transcript \<Rightarrow> string \<Rightarrow> bool" where
  "isSegmentArray transcript l = (case transcript l of Some (Segments ss) \<Rightarrow> True | _ \<Rightarrow> False)"

text \<open>\<^verbatim>\<open>transcript[lang] as TranscriptSegment[]\<close>, read only where the test above holds.\<close>

definition segmentsOf :: "'n Transcript \<Rightarrow> string \<Rightarrow> 'n TranscriptSegment list" where
  "segmentsOf transcript l = (case transcript l of Some (Segments ss) \<Rightarrow> ss | _ \<Rightarrow> [])"

text \<open>The \<^verbatim>\<open>for (const lang of languages)\<close> loop, pushing onto \<^verbatim>\<open>allSegments\<close>.\<close>

fun pushLanguages ::
  "'n Transcript \<Rightarrow> string list \<Rightarrow> 'n TranscriptSegment list \<Rightarrow> 'n TranscriptSegment list" where
  "pushLanguages transcript [] allSegments = allSegments"
| "pushLanguages transcript (l # ls) allSegments =
     pushLanguages transcript ls
       (if isSegmentArray transcript l then allSegments @ segmentsOf transcript l else allSegments)"

definition collectSegments :: "'n Transcript \<Rightarrow> 'n TranscriptSegment list" where
  "collectSegments transcript =
     (if isSegmentArray transcript ''en'' then [] @ segmentsOf transcript ''en''
      else pushLanguages transcript languages [])"

text \<open>\<^verbatim>\<open>allSegments.map(t => t.text).join(' ').slice(0, 5000).trim()\<close>\<close>

definition combineText :: "'n TranscriptSegment list \<Rightarrow> string" where
  "combineText allSegments = trim (take 5000 (joinWith '' '' (map segText allSegments)))"

section \<open>The reconciler\<close>

text \<open>\<^verbatim>\<open>mergeResults(geminiResult, ragResult, combinedText)\<close>; the third argument is not read.\<close>

definition mergeResults :: "FactCheckResult \<Rightarrow> FactCheckResult \<Rightarrow> string \<Rightarrow> FactCheckResult" where
  "mergeResults geminiResult ragResult combinedText =
     (if isFinancial ragResult \<and> length (claims (factCheck ragResult)) > 0 then
        \<lparr> normalizedTranscript = normalizedTranscript geminiResult,
          isFinancial = True,
          isMisleading = someInaccurate (claims (factCheck ragResult)),
          factCheck = \<lparr> claims = claims (factCheck ragResult),
                        sources = Some (sourcesOrEmpty (sources (factCheck ragResult))) \<rparr> \<rparr>
      else
        \<lparr> normalizedTranscript = normalizedTranscript geminiResult,
          isFinancial = isFinancial geminiResult,
          isMisleading = someInaccurate (claims (factCheck geminiResult)),
          factCheck = \<lparr> claims = claims (factCheck geminiResult),
                        sources = Some (sourcesOrEmpty (sources (factCheck geminiResult))) \<rparr> \<rparr>)"

section \<open>The pipeline orchestrator\<close>

definition gold_2015 :: string where
  "gold_2015 = ''Average gold price in 2015 was Rs 26,400 per 10g (Rs 2,640/g). Source: https://www.bankbazaar.com/gold-rate/gold-rate-trend-in-india.html''"

text \<open>The \<^verbatim>\<open>context\<close> constant of \<^verbatim>\<open>normalizeTranscript\<close>.\<close>

definition contextHint :: "string \<Rightarrow> string \<Rightarrow> string" where
  "contextHint combinedText additionalContext =
     (if includesStr combinedText ''gold'' \<and> includesStr combinedText ''2015'' then gold_2015
      else additionalContext)"

text \<open>
  \<^verbatim>\<open>normalizeTranscript(transcript, additionalContext)\<close>. Both components are started; the
  \<^verbatim>\<open>Promise.all\<close> is rejected when one of them is, and the \<^verbatim>\<open>catch\<close> block then calls
  \<^verbatim>\<open>logError\<close> and, when that returns, returns the neutral verdict on the combined text.
\<close>

definition normalizeTranscript ::
  "env \<Rightarrow> 'n Transcript \<Rightarrow> string \<Rightarrow> event list \<times> (error + FactCheckResult)" where
  "normalizeTranscript e transcript additionalContext =
     (let allSegments = collectSegments transcript in
      if length allSegments = 0 then
        ([], Inr (neutralVerdict ''No translatable transcript available''))
      else
        let combinedText = combineText allSegments in
        if combinedText = [] then
          ([], Inr (neutralVerdict ''No translatable transcript available''))
        else
          let context = contextHint combinedText additionalContext;
              gemini = runGeminiFactCheck e combinedText context;
              rag = runRAGFactCheck e combinedText
          in case (snd gemini, snd rag) of
               (Inr geminiResult, Inr ragResult) \<Rightarrow>
                 (fst gemini @ fst rag, Inr (mergeResults geminiResult ragResult combinedText))
             | _ \<Rightarrow>
                 (case logError e ''Fact-checking failure'' of
                    (logged, None) \<Rightarrow>
                      (fst gemini @ fst rag @ logged, Inr (neutralVerdict combinedText))
                  | (logged, Some thrown) \<Rightarrow> (fst gemini @ fst rag @ logged, Inl thrown)))"

section \<open>The video-ID extractors\<close>

text \<open>
  Both regular expressions carry the flag \<^verbatim>\<open>i\<close>: over the code units modelled here, two
  characters match when they are equal after folding the letters A to Z to lower case.
\<close>

definition toLowerAscii :: "char \<Rightarrow> char" where
  "toLowerAscii c =
     (case map_of (zip ''ABCDEFGHIJKLMNOPQRSTUVWXYZ'' ''abcdefghijklmnopqrstuvwxyz'') c of
        Some l \<Rightarrow> l
      | None \<Rightarrow> c)"

definition startsWithCI :: "string \<Rightarrow> string \<Rightarrow> bool" where
  "startsWithCI s p = (length p \<le> length s \<and> map toLowerAscii (take (length p) s) = map toLowerAscii p)"

text \<open>The character class \<^verbatim>\<open>[a-zA-Z0-9_-]\<close>\<close>

definition idChar :: "char \<Rightarrow> bool" where
  "idChar c =
     (c \<in> set ''abcdefghijklmnopqrstuvwxyzABCDEFGHIJKLMNOPQRSTUVWXYZ0123456789_-'')"

text \<open>The capture groups: \<^verbatim>\<open>([a-zA-Z0-9_-]{11})\<close> and the greedy \<^verbatim>\<open>([a-zA-Z0-9_-]+)\<close>,
  each the last item of its expression.\<close>

definition capture11 :: "string \<Rightarrow> string option" where
  "capture11 s =
     (if 11 \<le> length s \<and> list_all idChar (take 11 s) then Some (take 11 s) else None)"

definition capturePlus :: "string \<Rightarrow> string option" where
  "capturePlus s = (if takeWhile idChar s = [] then None else Some (takeWhile idChar s))"

text \<open>
  An attempt at one position: the alternatives of the non-capturing group, in the order the
  expression lists them, each followed by the capture group; a failed capture backtracks to
  the next alternative.
\<close>

fun matchAt :: "string list \<Rightarrow> (string \<Rightarrow> string option) \<Rightarrow> string \<Rightarrow> string option" where
  "matchAt [] cap s = None"
| "matchAt (p # ps) cap s =
     (if startsWithCI s p then
        (case cap (drop (length p) s) of Some g \<Rightarrow> Some g | None \<Rightarrow> matchAt ps cap s)
      else matchAt ps cap s)"

text \<open>\<^verbatim>\<open>s.match(regex)\<close> without the flag \<^verbatim>\<open>g\<close>: the leftmost position where an attempt succeeds.\<close>

fun regexMatch :: "string list \<Rightarrow> (string \<Rightarrow> string option) \<Rightarrow> string \<Rightarrow> string option" where
  "regexMatch ps cap [] = matchAt ps cap []"
| "regexMatch ps cap (c # cs) =
     (case matchAt ps cap (c # cs) of Some g \<Rightarrow> Some g | None \<Rightarrow> regexMatch ps cap cs)"

definition youtubePaths :: "string list" where
  "youtubePaths = [''watch?v='', ''shorts/'', ''embed/'', ''v/'', ''live/'', ''watch/'', ''video/'']"

definition youtubeRegex :: "string list" where
  "youtubeRegex =
     map (\<lambda>p. ''youtube.com/'' @ p) youtubePaths @ [''youtu.be/'']
       @ map (\<lambda>p. ''m.youtube.com/'' @ p) youtubePaths"

definition instagramRegex :: "string list" where
  "instagramRegex = [''instagram.com/p/'', ''instagram.com/reel/'']"

text \<open>The first four statements of both extractors: trim, then prepend the scheme when none is there.\<close>

definition cleanURL :: "string \<Rightarrow> string" where
  "cleanURL videoURL =
     (let cleanedURL = trim videoURL in
      if \<not> startsWith cleanedURL ''http://'' \<and> \<not> startsWith cleanedURL ''https://''
      then ''https://'' @ cleanedURL
      else cleanedURL)"

text \<open>
  \<^verbatim>\<open>new URL(cleanedURL)\<close> is the platform's parser: \<open>urlParses\<close> says on which strings it
  returns, and on the others it throws a TypeError. The \<^verbatim>\<open>catch\<close> block returns the empty
  string.
\<close>

definition extractId_try ::
  "(string \<Rightarrow> bool) \<Rightarrow> string list \<Rightarrow> (string \<Rightarrow> string option) \<Rightarrow> string \<Rightarrow> error + string" where
  "extractId_try urlParses regex cap cleanedURL =
     (if \<not> urlParses cleanedURL then Inl TypeError
      else case regexMatch regex cap cleanedURL of
             Some g \<Rightarrow> (if g \<noteq> [] then Inr g else Inr [])
           | None \<Rightarrow> Inr [])"

definition extractYouTubeId :: "(string \<Rightarrow> bool) \<Rightarrow> string \<Rightarrow> error + string" where
  "extractYouTubeId urlParses videoURL =
     (case extractId_try urlParses youtubeRegex capture11 (cleanURL videoURL) of
        Inr g \<Rightarrow> Inr g
      | Inl err \<Rightarrow> Inr [])"

definition extractInstagramId :: "(string \<Rightarrow> bool) \<Rightarrow> string \<Rightarrow> error + string" where
  "extractInstagramId urlParses videoURL =
     (case extractId_try urlParses instagramRegex capturePlus (cleanURL videoURL) of
        Inr g \<Rightarrow> Inr g
      | Inl err \<Rightarrow> Inr [])"

section \<open>The specification's wording\<close>

text \<open>
  The aggregation rule as the specification words it: the English segments when an English
  sequence exists and is non-empty, otherwise every present language's segments in the
  preference order; the texts joined by single spaces, cut to 5000 characters, trimmed.
\<close>

definition spec_selectedSegments :: "'n Transcript \<Rightarrow> 'n TranscriptSegment list" where
  "spec_selectedSegments t =
     (if isSegmentArray t ''en'' \<and> segmentsOf t ''en'' \<noteq> [] then segmentsOf t ''en''
      else concat (map (segmentsOf t) [''en'', ''hi'', ''ta'', ''bn'', ''mr'']))"

definition spec_combinedText :: "'n Transcript \<Rightarrow> string" where
  "spec_combinedText t =
     trim (take 5000 (joinWith '' '' (map segText (spec_selectedSegments t))))"

text \<open>
  A string matches a platform pattern with captured group \<open>g\<close>: somewhere in it one of the
  alternatives occurs, letter case ignored, and the capture group read right after it
  yields \<open>g\<close>.
\<close>

definition captures :: "string list \<Rightarrow> (string \<Rightarrow> string option) \<Rightarrow> string \<Rightarrow> string \<Rightarrow> bool" where
  "captures regex cap s g =
     (\<exists>pre rest p. s = pre @ rest \<and> p \<in> set regex \<and> startsWithCI rest p \<and>
        cap (drop (length p) rest) = Some g)"

section \<open>Example inputs\<close>

definition exSegment :: "string \<Rightarrow> string \<Rightarrow> nat TranscriptSegment" where
  "exSegment l s = \<lparr> segText = s, start = 0, duration = None, lang = l \<rparr>"

definition exTranscript :: "string \<Rightarrow> nat Transcript" where
  "exTranscript s = [''en'' \<mapsto> Segments [exSegment ''en'' s]]"

definition exTranscriptEmptyEn :: "nat Transcript" where
  "exTranscriptEmptyEn =
     [''en'' \<mapsto> Segments [], ''hi'' \<mapsto> Segments [exSegment ''hi'' ''namaste'']]"

definition exTranscriptNoEn :: "nat Transcript" where
  "exTranscriptNoEn =
     [''ta'' \<mapsto> Segments [exSegment ''ta'' ''vanakkam ''],
      ''en'' \<mapsto> Placeholder ''Transcript unavailable'',
      ''hi'' \<mapsto> Segments [exSegment ''hi'' '' namaste'', exSegment ''hi'' ''dosto'']]"

definition exClaim :: "bool \<Rightarrow> Claim" where
  "exClaim b =
     \<lparr> claim = ''Gold doubled in 2015'', isAccurate = b, explanation = ''See the cited rates.'' \<rparr>"

definition exSource :: Source where
  "exSource =
     \<lparr> title = ''Gold rate trend'', url = ''https://example.org/gold'',
       snippet = ''Gold was flat in 2015.'' \<rparr>"

definition exVerdict :: "bool \<Rightarrow> Claim list \<Rightarrow> Source list \<Rightarrow> FactCheckResult" where
  "exVerdict fin cs ss =
     \<lparr> normalizedTranscript = ''Gold prices were discussed.'',
       isFinancial = fin,
       isMisleading = False,
       factCheck = \<lparr> claims = cs, sources = Some ss \<rparr> \<rparr>"

text \<open>Fixed replies, with a log that can be written and with one that cannot.\<close>

definition exEnv :: "geminiReply \<Rightarrow> ragReply \<Rightarrow> env" where
  "exEnv g r =
     \<lparr> generateContent = (\<lambda>prompt. g), ragPost = (\<lambda>query. r), logAppend = (\<lambda>message. True) \<rparr>"

definition exEnvNoLog :: "geminiReply \<Rightarrow> ragReply \<Rightarrow> env" where
  "exEnvNoLog g r =
     \<lparr> generateContent = (\<lambda>prompt. g), ragPost = (\<lambda>query. r), logAppend = (\<lambda>message. False) \<rparr>"

section \<open>Basic facts\<close>

lemmas ex_defs =
  exEnv_def exEnvNoLog_def exTranscript_def exSegment_def exVerdict_def exClaim_def exSource_def

lemmas aggregator_defs =
  collectSegments_def isSegmentArray_def segmentsOf_def combineText_def trim_def isWhiteSpace_def

lemmas pipeline_defs =
  normalizeTranscript_def aggregator_defs contextHint_def startsWith_def logError_def
  runGeminiFactCheck_def runGeminiFactCheck_try_def runRAGFactCheck_def runRAGFactCheck_try_def
  mergeResults_def neutralVerdict_def someInaccurate_def sourcesOrEmpty_def geminiPostProcess_def
  languages_def OUT_OF_CONTEXT_def ragClaim_def

lemma copy_Claim:
  "\<lparr> claim = claim c, isAccurate = isAccurate c, explanation = explanation c \<rparr> = (c::Claim)"
  by (cases c) simp

lemma copy_Source:
  "\<lparr> title = title p, url = url p, snippet = snippet p \<rparr> = (p::Source)"
  by (cases p) simp

lemma geminiPostProcess_fields:
  "normalizedTranscript (geminiPostProcess p) = normalizedTranscript p"
  "isFinancial (geminiPostProcess p) = isFinancial p"
  "claims (factCheck (geminiPostProcess p)) = claims (factCheck p)"
  "sources (factCheck (geminiPostProcess p)) = Some (sourcesOrEmpty (sources (factCheck p)))"
  "isMisleading (geminiPostProcess p) = someInaccurate (claims (factCheck p))"
  by (simp_all add: geminiPostProcess_def Let_def copy_Claim)

lemma mergeResults_isMisleading:
  "isMisleading (mergeResults g r t) = someInaccurate (claims (factCheck (mergeResults g r t)))"
  by (simp add: mergeResults_def)

lemma mergeResults_sources: "sources (factCheck (mergeResults g r T)) \<noteq> None"
  by (simp add: mergeResults_def)

lemma neutralVerdict_isMisleading:
  "isMisleading (neutralVerdict t) = someInaccurate (claims (factCheck (neutralVerdict t)))"
  by (simp add: neutralVerdict_def someInaccurate_def)

lemma combineText_Nil: "combineText [] = []"
  by (simp add: combineText_def trim_def)

text \<open>Both components return a result whose \<open>sources\<close> field is there.\<close>

lemma logError_cases:
  "logError e m = ([LogError m], None) \<and> logAppend e m \<or>
   logError e m = ([], Some AppendFailed) \<and> \<not> logAppend e m"
  by (simp add: logError_def)

lemma runGeminiFactCheck_sound:
  assumes "snd (runGeminiFactCheck e T c) = Inr g"
  shows "\<exists>p. generateContent e (geminiPrompt T c) = Parsed p \<and> g = geminiPostProcess p"
  using assms
  by (auto simp: runGeminiFactCheck_def runGeminiFactCheck_try_def logError_def Let_def
      split: geminiReply.splits if_splits)

lemma runGeminiFactCheck_sources:
  "snd (runGeminiFactCheck e T c) = Inr g \<Longrightarrow> sources (factCheck g) \<noteq> None"
  using runGeminiFactCheck_sound [of e T c g] by (auto simp: geminiPostProcess_fields)

text \<open>The Fact Source returns when its log line can be written, and raises otherwise.\<close>

lemma runRAGFactCheck_returns:
  "logAppend e ''RAG fact-check failed'' \<Longrightarrow> \<exists>res. snd (runRAGFactCheck e T) = Inr res"
  by (simp add: runRAGFactCheck_def logError_def split: sum.splits)

lemma runRAGFactCheck_sources:
  "snd (runRAGFactCheck e T) = Inr r \<Longrightarrow> sources (factCheck r) \<noteq> None"
  by (auto simp: runRAGFactCheck_def runRAGFactCheck_try_def neutralVerdict_def logError_def Let_def
      split: sum.splits ragReply.splits option.splits if_splits)

text \<open>
  The four ways \<^const>\<open>normalizeTranscript\<close> ends: the short circuit, the \<^verbatim>\<open>catch\<close> block
  when its log line is written, the reconciler on the results of the two components, and the
  error thrown by \<^verbatim>\<open>logError\<close> in the \<^verbatim>\<open>catch\<close> block.
\<close>

lemma normalizeTranscript_exits:
  "snd (normalizeTranscript e t a) = Inr (neutralVerdict ''No translatable transcript available'')
   \<or> snd (normalizeTranscript e t a) = Inr (neutralVerdict (combineText (collectSegments t)))
   \<or> (\<exists>g r. snd (runGeminiFactCheck e (combineText (collectSegments t))
                      (contextHint (combineText (collectSegments t)) a)) = Inr g
            \<and> snd (runRAGFactCheck e (combineText (collectSegments t))) = Inr r
            \<and> snd (normalizeTranscript e t a) =
                Inr (mergeResults g r (combineText (collectSegments t))))
   \<or> (snd (normalizeTranscript e t a) = Inl AppendFailed \<and> \<not> logAppend e ''Fact-checking failure'')"
  by (auto simp: normalizeTranscript_def logError_def Let_def split: sum.splits)

lemma normalizeTranscript_returns:
  "logAppend e ''Fact-checking failure'' \<Longrightarrow> \<exists>res. snd (normalizeTranscript e t a) = Inr res"
  using normalizeTranscript_exits [of e t a] by auto

text \<open>
  Unless it short-circuits, a run first sends the Extractor's prompt, built from the combined
  text, to the generative model.
\<close>

lemma runGeminiFactCheck_events_hd:
  "hd (fst (runGeminiFactCheck e T c) @ es) = GenerateContent (geminiPrompt T c)"
  by (simp add: runGeminiFactCheck_def logError_def Let_def split: sum.splits)

lemma normalizeTranscript_events_hd:
  assumes "combineText (collectSegments t) \<noteq> []"
  shows "hd (fst (normalizeTranscript e t a)) =
           GenerateContent (geminiPrompt (combineText (collectSegments t))
                              (contextHint (combineText (collectSegments t)) a))"
proof -
  from assms have "collectSegments t \<noteq> []"
    using combineText_Nil by auto
  with assms show ?thesis
    by (simp add: normalizeTranscript_def logError_def Let_def runGeminiFactCheck_events_hd
        split: sum.splits)
qed

section \<open>The reconciler's precedence\<close>

text \<open>
  C1. For every Extractor result \<open>g\<close> and Fact Source result \<open>r\<close>: when \<open>r\<close> is financial with
  at least one claim, the merged result has the claims and the sources of \<open>r\<close>, is financial,
  and keeps the normalized transcript of \<open>g\<close>; otherwise it has the financial flag, the claims,
  the sources and the normalized transcript of \<open>g\<close>. The claims are never a mixture. The
  sources are read as the code reads them, \<^verbatim>\<open>sources || []\<close>: the field itself when it is
  there, as it is in every result of the two components.
\<close>

theorem mergeResults_precedence:
  "(if isFinancial r \<and> claims (factCheck r) \<noteq> [] then
      claims (factCheck (mergeResults g r t)) = claims (factCheck r) \<and>
      sources (factCheck (mergeResults g r t)) = Some (sourcesOrEmpty (sources (factCheck r))) \<and>
      isFinancial (mergeResults g r t) = True \<and>
      normalizedTranscript (mergeResults g r t) = normalizedTranscript g
    else
      isFinancial (mergeResults g r t) = isFinancial g \<and>
      claims (factCheck (mergeResults g r t)) = claims (factCheck g) \<and>
      sources (factCheck (mergeResults g r t)) = Some (sourcesOrEmpty (sources (factCheck g))) \<and>
      normalizedTranscript (mergeResults g r t) = normalizedTranscript g)"
  by (simp add: mergeResults_def)

text \<open>
  The specification's example: the Extractor says non-financial, the Fact Source returns one
  claim. And the other branch: the Fact Source is financial without a claim.
\<close>

theorem mergeResults_precedence_witness:
  "claims (factCheck (mergeResults (exVerdict False [] []) (exVerdict True [exClaim True] [exSource]) ''gold''))
     = [exClaim True] \<and>
   sources (factCheck (mergeResults (exVerdict False [] []) (exVerdict True [exClaim True] [exSource]) ''gold''))
     = Some [exSource] \<and>
   isFinancial (mergeResults (exVerdict False [] []) (exVerdict True [exClaim True] [exSource]) ''gold'') \<and>
   claims (factCheck (mergeResults (exVerdict True [exClaim False] []) (exVerdict True [] [exSource]) ''gold''))
     = [exClaim False] \<and>
   sources (factCheck (mergeResults (exVerdict True [exClaim False] []) (exVerdict True [] [exSource]) ''gold''))
     = Some []"
  using mergeResults_precedence
          [of "exVerdict True [exClaim True] [exSource]" "exVerdict False [] []" "''gold''"]
        mergeResults_precedence
          [of "exVerdict True [] [exSource]" "exVerdict True [exClaim False] []" "''gold''"]
  by (simp add: exVerdict_def sourcesOrEmpty_def)

section \<open>The misleading flag\<close>

text \<open>
  C2. In every result that \<^const>\<open>normalizeTranscript\<close> returns, \<open>isMisleading\<close> is true exactly
  when some claim of \<open>factCheck.claims\<close> has \<open>isAccurate = false\<close>; and a result is returned
  on every run in which the pipeline's log line can be written.
\<close>

theorem normalizeTranscript_isMisleading:
  "(\<forall>res. snd (normalizeTranscript e t a) = Inr res \<longrightarrow>
        isMisleading res = list_ex (\<lambda>c. \<not> isAccurate c) (claims (factCheck res))) \<and>
   (logAppend e ''Fact-checking failure'' \<longrightarrow> (\<exists>res. snd (normalizeTranscript e t a) = Inr res))"
proof (intro conjI allI impI)
  fix res assume "snd (normalizeTranscript e t a) = Inr res"
  with normalizeTranscript_exits [of e t a]
  have "res = neutralVerdict ''No translatable transcript available''
        \<or> res = neutralVerdict (combineText (collectSegments t))
        \<or> (\<exists>g r. res = mergeResults g r (combineText (collectSegments t)))"
    by auto
  then show "isMisleading res = list_ex (\<lambda>c. \<not> isAccurate c) (claims (factCheck res))"
    using mergeResults_isMisleading neutralVerdict_isMisleading
    unfolding someInaccurate_def by metis
next
  assume "logAppend e ''Fact-checking failure''"
  then show "\<exists>res. snd (normalizeTranscript e t a) = Inr res"
    by (rule normalizeTranscript_returns)
qed

text \<open>The model answers with one inaccurate claim and the retrieval call fails.\<close>

theorem normalizeTranscript_isMisleading_witness:
  "\<exists>res. snd (normalizeTranscript
                 (exEnv (Parsed (exVerdict True [exClaim False] [exSource])) PostRejected)
                 (exTranscript ''hello there'') '''') = Inr res
         \<and> isMisleading res \<and> claims (factCheck res) = [exClaim False]"
proof -
  let ?E = "exEnv (Parsed (exVerdict True [exClaim False] [exSource])) PostRejected"
  have r: "snd (normalizeTranscript ?E (exTranscript ''hello there'') '''')
             = Inr (geminiPostProcess (exVerdict True [exClaim False] [exSource]))"
    by (simp add: ex_defs pipeline_defs Let_def)
  have c: "claims (factCheck (geminiPostProcess (exVerdict True [exClaim False] [exSource])))
             = [exClaim False]"
    by (simp add: geminiPostProcess_fields exVerdict_def)
  from normalizeTranscript_isMisleading [of ?E "exTranscript ''hello there''" "''''"] r
  have "isMisleading (geminiPostProcess (exVerdict True [exClaim False] [exSource]))
          = list_ex (\<lambda>c. \<not> isAccurate c)
              (claims (factCheck (geminiPostProcess (exVerdict True [exClaim False] [exSource]))))"
    by blast
  with c have "isMisleading (geminiPostProcess (exVerdict True [exClaim False] [exSource]))"
    by (simp add: exClaim_def)
  with r c show ?thesis by simp
qed

section \<open>Non-financial results\<close>

text \<open>
  The code never clears the claims and sources of a non-financial Extractor verdict: the
  prompt asks the model for empty lists, and what the model answers is passed on. Here the
  model answers non-financial with one claim and one source, the retrieval call fails, and
  the pipeline returns a non-financial result with that claim and that source.
\<close>

theorem normalizeTranscript_nonFinancial_counterexample:
  "(case snd (normalizeTranscript
                (exEnv (Parsed (exVerdict False [exClaim True] [exSource])) PostRejected)
                (exTranscript ''hello there'') '''') of
      Inr res \<Rightarrow> \<not> isFinancial res \<and> claims (factCheck res) = [exClaim True]
                   \<and> sources (factCheck res) = Some [exSource]
    | Inl err \<Rightarrow> False)"
  by (simp add: ex_defs pipeline_defs Let_def)

text \<open>
  C3, amended. When every verdict the generative model returns has no claims and no sources
  unless it is financial, then in every result that \<^const>\<open>normalizeTranscript\<close> returns
  \<open>isFinancial = false\<close> implies that claims and sources are both empty; and a result is
  returned on every run in which the pipeline's log line can be written.
\<close>

theorem normalizeTranscript_nonFinancial_empty:
  assumes "\<And>prompt p. generateContent e prompt = Parsed p \<Longrightarrow> \<not> isFinancial p \<Longrightarrow>
             claims (factCheck p) = [] \<and> sourcesOrEmpty (sources (factCheck p)) = []"
  shows "(\<forall>res. snd (normalizeTranscript e t a) = Inr res \<longrightarrow>
            (\<not> isFinancial res \<longrightarrow>
               claims (factCheck res) = [] \<and> sources (factCheck res) = Some [])) \<and>
         (logAppend e ''Fact-checking failure'' \<longrightarrow>
            (\<exists>res. snd (normalizeTranscript e t a) = Inr res))"
proof -
  have returned: "\<forall>res. snd (normalizeTranscript e t a) = Inr res \<longrightarrow>
            (\<not> isFinancial res \<longrightarrow>
               claims (factCheck res) = [] \<and> sources (factCheck res) = Some [])"
  proof (rule allI, rule impI, rule impI)
    fix res
    assume ret: "snd (normalizeTranscript e t a) = Inr res" and nf: "\<not> isFinancial res"
    let ?T = "combineText (collectSegments t)"
    from ret normalizeTranscript_exits [of e t a] consider
      (short) "res = neutralVerdict ''No translatable transcript available''"
      | (caught) "res = neutralVerdict ?T"
      | (merged) g r where "snd (runGeminiFactCheck e ?T (contextHint ?T a)) = Inr g"
          "res = mergeResults g r ?T"
      by auto
    then show "claims (factCheck res) = [] \<and> sources (factCheck res) = Some []"
    proof cases
      case short
      then show ?thesis by (simp add: neutralVerdict_def)
    next
      case caught
      then show ?thesis by (simp add: neutralVerdict_def)
    next
      case merged
      from runGeminiFactCheck_sound [OF merged(1)] obtain p where
        p: "generateContent e (geminiPrompt ?T (contextHint ?T a)) = Parsed p"
           "g = geminiPostProcess p"
        by blast
      have "\<not> isFinancial p \<Longrightarrow>
              claims (factCheck p) = [] \<and> sourcesOrEmpty (sources (factCheck p)) = []"
        using assms p(1) by blast
      then have "\<not> isFinancial (mergeResults g r ?T) \<longrightarrow>
          claims (factCheck (mergeResults g r ?T)) = [] \<and>
          sources (factCheck (mergeResults g r ?T)) = Some []"
        by (auto simp: mergeResults_def p(2) geminiPostProcess_fields sourcesOrEmpty_def)
      with merged(2) nf show ?thesis by simp
    qed
  qed
  have returns: "logAppend e ''Fact-checking failure'' \<longrightarrow>
            (\<exists>res. snd (normalizeTranscript e t a) = Inr res)"
    using normalizeTranscript_returns [of e t a] by blast
  from returned returns show ?thesis by (rule conjI)
qed

theorem normalizeTranscript_nonFinancial_empty_witness:
  "\<exists>res. snd (normalizeTranscript (exEnv (Parsed (exVerdict False [] [])) PostRejected)
                (exTranscript ''hello there'') '''') = Inr res
         \<and> \<not> isFinancial res \<and> claims (factCheck res) = [] \<and> sources (factCheck res) = Some []"
proof -
  have h: "\<And>prompt p.
        generateContent (exEnv (Parsed (exVerdict False [] [])) PostRejected) prompt = Parsed p
        \<Longrightarrow> \<not> isFinancial p
        \<Longrightarrow> claims (factCheck p) = [] \<and> sourcesOrEmpty (sources (factCheck p)) = []"
    by (auto simp: ex_defs sourcesOrEmpty_def)
  have fin: "snd (normalizeTranscript (exEnv (Parsed (exVerdict False [] [])) PostRejected)
                (exTranscript ''hello there'') '''')
             = Inr (geminiPostProcess (exVerdict False [] []))"
    by (simp add: ex_defs pipeline_defs Let_def)
  have nf: "\<not> isFinancial (geminiPostProcess (exVerdict False [] []))"
    by (simp add: geminiPostProcess_fields exVerdict_def)
  from normalizeTranscript_nonFinancial_empty
         [of "exEnv (Parsed (exVerdict False [] [])) PostRejected"
             "exTranscript ''hello there''" "''''", OF h] fin nf
  show ?thesis by auto
qed

section \<open>The sentinel answer of the retrieval service\<close>

text \<open>
  What \<^const>\<open>runRAGFactCheck\<close> returns on the sentinel answer, for any array of passages: the
  input text, not financial, not misleading, no claims, and the passages as sources.
\<close>

lemma runRAGFactCheck_sentinel:
  assumes "ragPost e T = Data d" "answer d = ''OUT OF CONTEXT''" "passages d = Some ps"
  shows "snd (runRAGFactCheck e T) =
     Inr \<lparr> normalizedTranscript = T, isFinancial = False, isMisleading = False,
           factCheck = \<lparr> claims = [], sources = Some ps \<rparr> \<rparr>"
  using assms
  by (simp add: runRAGFactCheck_def runRAGFactCheck_try_def OUT_OF_CONTEXT_def
      someInaccurate_def copy_Source)

text \<open>
  C4. On the answer \<^verbatim>\<open>OUT OF CONTEXT\<close> with one passage, the Fact Source's result has the
  input text, is neither financial nor misleading and has no claims, but its sources are not
  empty: they hold the passage. The claims test the sentinel, the sources do not.
\<close>

theorem runRAGFactCheck_sentinel_keeps_sources:
  "snd (runRAGFactCheck
          (exEnv NotJson (Data \<lparr> answer = ''OUT OF CONTEXT'', passages = Some [exSource] \<rparr>))
          ''gold is up'') =
     Inr \<lparr> normalizedTranscript = ''gold is up'', isFinancial = False, isMisleading = False,
           factCheck = \<lparr> claims = [], sources = Some [exSource] \<rparr> \<rparr>"
  by (simp add: exEnv_def runRAGFactCheck_def runRAGFactCheck_try_def OUT_OF_CONTEXT_def
      someInaccurate_def copy_Source)

section \<open>The combined text\<close>

lemma pushLanguages_concat:
  "pushLanguages t ls acc = acc @ concat (map (segmentsOf t) ls)"
proof (induction ls arbitrary: acc)
  case Nil
  then show ?case by simp
next
  case (Cons l ls)
  have "\<not> isSegmentArray t l \<Longrightarrow> segmentsOf t l = []"
    by (auto simp: isSegmentArray_def segmentsOf_def split: option.splits TranscriptEntry.splits)
  with Cons show ?case by auto
qed

lemma collectSegments_eq:
  "collectSegments t =
     (if isSegmentArray t ''en'' then segmentsOf t ''en''
      else concat (map (segmentsOf t) [''en'', ''hi'', ''ta'', ''bn'', ''mr'']))"
  by (simp add: collectSegments_def pushLanguages_concat languages_def)

lemma length_trim: "length (trim s) \<le> length s"
proof -
  have "length (dropWhile isWhiteSpace (rev (dropWhile isWhiteSpace s)))
          \<le> length (rev (dropWhile isWhiteSpace s))"
    by (rule length_dropWhile_le)
  also have "\<dots> \<le> length s"
    by (simp add: length_dropWhile_le)
  finally show ?thesis by (simp add: trim_def)
qed

lemma last_dropWhile: "dropWhile P xs \<noteq> [] \<Longrightarrow> last (dropWhile P xs) = last xs"
  by (induction xs) auto

text \<open>A trimmed string is empty or has no white space at either end.\<close>

lemma trim_ends:
  "trim s = [] \<or> (\<not> isWhiteSpace (hd (trim s)) \<and> \<not> isWhiteSpace (last (trim s)))"
proof (cases "trim s = []")
  case True
  then show ?thesis by simp
next
  case False
  define a where "a = dropWhile isWhiteSpace s"
  define d where "d = dropWhile isWhiteSpace (rev a)"
  have t: "trim s = rev d" by (simp add: trim_def a_def d_def)
  with False have d: "d \<noteq> []" by simp
  then have a: "a \<noteq> []" unfolding d_def by auto
  from d have "\<not> isWhiteSpace (hd d)" unfolding d_def by (rule hd_dropWhile)
  moreover from d have "last d = last (rev a)" unfolding d_def by (rule last_dropWhile)
  moreover from a have "\<not> isWhiteSpace (hd a)" unfolding a_def by (rule hd_dropWhile)
  ultimately show ?thesis using a d by (simp add: t hd_rev last_rev)
qed

text \<open>
  An English array that is present but empty is still taken alone: nothing is selected and
  the combined text is empty, where the specification's rule falls through to the other
  languages and yields the Hindi text.
\<close>

theorem emptyEnglish_counterexample:
  "isSegmentArray exTranscriptEmptyEn ''en'' \<and> segmentsOf exTranscriptEmptyEn ''en'' = [] \<and>
   spec_combinedText exTranscriptEmptyEn = ''namaste'' \<and>
   combineText (collectSegments exTranscriptEmptyEn) = []"
  by (simp add: exTranscriptEmptyEn_def exSegment_def spec_combinedText_def
      spec_selectedSegments_def aggregator_defs)

text \<open>
  C5, amended. For every transcript map: when an English segment array is present, empty or
  not, only its segments are selected; otherwise the segments of every present language are
  selected in the order en, hi, ta, bn, mr, each language in its own order. The combined text
  is the selected segments' texts joined by single spaces, cut to 5000 characters and then
  trimmed: it has at most 5000 characters and no white space at either end. It is the text
  the specification's rule gives on every map but those whose English array is empty.
\<close>

theorem collectSegments_combineText:
  "collectSegments t =
     (if isSegmentArray t ''en'' then segmentsOf t ''en''
      else concat (map (segmentsOf t) [''en'', ''hi'', ''ta'', ''bn'', ''mr''])) \<and>
   combineText (collectSegments t) =
     trim (take 5000 (joinWith '' '' (map segText (collectSegments t)))) \<and>
   length (combineText (collectSegments t)) \<le> 5000 \<and>
   (combineText (collectSegments t) = [] \<or>
      (\<not> isWhiteSpace (hd (combineText (collectSegments t))) \<and>
       \<not> isWhiteSpace (last (combineText (collectSegments t))))) \<and>
   (\<not> (isSegmentArray t ''en'' \<and> segmentsOf t ''en'' = []) \<longrightarrow>
      combineText (collectSegments t) = spec_combinedText t)"
proof (intro conjI impI)
  show "collectSegments t =
     (if isSegmentArray t ''en'' then segmentsOf t ''en''
      else concat (map (segmentsOf t) [''en'', ''hi'', ''ta'', ''bn'', ''mr'']))"
    by (rule collectSegments_eq)
  show "combineText (collectSegments t) =
          trim (take 5000 (joinWith '' '' (map segText (collectSegments t))))"
    by (simp add: combineText_def)
  have "length (combineText (collectSegments t))
          \<le> length (take 5000 (joinWith '' '' (map segText (collectSegments t))))"
    unfolding combineText_def by (rule length_trim)
  then show "length (combineText (collectSegments t)) \<le> 5000" by simp
  show "combineText (collectSegments t) = [] \<or>
      (\<not> isWhiteSpace (hd (combineText (collectSegments t))) \<and>
       \<not> isWhiteSpace (last (combineText (collectSegments t))))"
    unfolding combineText_def by (rule trim_ends)
  assume "\<not> (isSegmentArray t ''en'' \<and> segmentsOf t ''en'' = [])"
  then have "collectSegments t = spec_selectedSegments t"
    by (auto simp: collectSegments_eq spec_selectedSegments_def)
  then show "combineText (collectSegments t) = spec_combinedText t"
    by (simp add: combineText_def spec_combinedText_def)
qed

theorem collectSegments_combineText_witness:
  "\<not> isSegmentArray exTranscriptNoEn ''en'' \<and>
   map segText (collectSegments exTranscriptNoEn) = ['' namaste'', ''dosto'', ''vanakkam ''] \<and>
   combineText (collectSegments exTranscriptNoEn) = ''namaste dosto vanakkam'' \<and>
   spec_combinedText exTranscriptNoEn = ''namaste dosto vanakkam''"
proof -
  have noEn: "\<not> isSegmentArray exTranscriptNoEn ''en''"
    by (simp add: exTranscriptNoEn_def isSegmentArray_def)
  have sel: "map segText (collectSegments exTranscriptNoEn) = ['' namaste'', ''dosto'', ''vanakkam '']"
    by (simp add: exTranscriptNoEn_def exSegment_def collectSegments_def isSegmentArray_def
        segmentsOf_def languages_def)
  have joined: "trim (take 5000 (joinWith '' '' ['' namaste'', ''dosto'', ''vanakkam '']))
                  = ''namaste dosto vanakkam''"
    by (simp add: trim_def isWhiteSpace_def)
  from collectSegments_combineText [of exTranscriptNoEn]
  have c: "combineText (collectSegments exTranscriptNoEn) =
             trim (take 5000 (joinWith '' '' (map segText (collectSegments exTranscriptNoEn))))"
    and s: "\<not> (isSegmentArray exTranscriptNoEn ''en'' \<and> segmentsOf exTranscriptNoEn ''en'' = []) \<longrightarrow>
             combineText (collectSegments exTranscriptNoEn) = spec_combinedText exTranscriptNoEn"
    by blast+
  from c sel joined
  have "combineText (collectSegments exTranscriptNoEn) = ''namaste dosto vanakkam''"
    by simp
  with s noEn sel show ?thesis by simp
qed

section \<open>The short circuit\<close>

text \<open>
  C6. For every transcript map whose combined text is empty (the selected segments' texts
  joined, cut and trimmed; a map that selects no segment is one of them), the pipeline
  returns the verdict \<^verbatim>\<open>No translatable transcript available\<close>, not financial, not
  misleading, without claims and sources, and has no effect: neither the generative model
  nor the retrieval service is called.
\<close>

theorem normalizeTranscript_short_circuit:
  assumes "combineText (collectSegments t) = []"
  shows "normalizeTranscript e t a =
           ([], Inr \<lparr> normalizedTranscript = ''No translatable transcript available'',
                      isFinancial = False, isMisleading = False,
                      factCheck = \<lparr> claims = [], sources = Some [] \<rparr> \<rparr>)"
  using assms by (simp add: normalizeTranscript_def Let_def neutralVerdict_def)

theorem normalizeTranscript_short_circuit_witness:
  "combineText (collectSegments (exTranscript ''   '')) = [] \<and>
   normalizeTranscript (exEnv NotJson NoData) (exTranscript ''   '') ''hint'' =
           ([], Inr \<lparr> normalizedTranscript = ''No translatable transcript available'',
                      isFinancial = False, isMisleading = False,
                      factCheck = \<lparr> claims = [], sources = Some [] \<rparr> \<rparr>)"
proof -
  have h: "combineText (collectSegments (exTranscript ''   '')) = []"
    by (simp add: ex_defs aggregator_defs)
  from h normalizeTranscript_short_circuit [OF h] show ?thesis by simp
qed

section \<open>Failures of the retrieval service\<close>





section \<open>Failures of the claim extractor\<close>




section \<open>The context hint\<close>

lemma includesStr_set: "includesStr s sub \<Longrightarrow> set sub \<subseteq> set s"
proof (induction s)
  case Nil
  then show ?case by simp
next
  case (Cons c cs)
  show ?case
  proof (cases "startsWith (c # cs) sub")
    case True
    then have "sub = take (length sub) (c # cs)" by (simp add: startsWith_def)
    then have "set sub \<subseteq> set (c # cs)" by (metis set_take_subset)
    then show ?thesis .
  next
    case False
    with Cons show ?thesis by auto
  qed
qed

text \<open>The hint on every text that includes both key words.\<close>

lemma contextHint_gold_2015:
  "includesStr T ''gold'' \<Longrightarrow> includesStr T ''2015'' \<Longrightarrow> contextHint T a = gold_2015"
  by (simp add: contextHint_def)

text \<open>The prompt is the same whatever the hint.\<close>

lemma geminiPrompt_ignores_context: "geminiPrompt T c = geminiPrompt T c'"
  by (simp add: geminiPrompt_def)

lemma prompt_has_no_slash:
  "CHR ''/'' \<notin> set (geminiPrompt ''10gm gold was 3000 Rs in 2015'' c)"
  by (simp add: geminiPrompt_def promptHeadLines_def promptTailLines_def escapeQuotes_def)

text \<open>
  C9. On the combined text \<^verbatim>\<open>10gm gold was 3000 Rs in 2015\<close> the context hint is the static
  fact about the gold price of 2015, and the pipeline calls the Extractor with it; but the
  prompt that the Extractor, and so the pipeline, sends to the generative model does not
  include the hint.
\<close>

theorem gold_hint_not_in_prompt:
  "contextHint ''10gm gold was 3000 Rs in 2015'' a = gold_2015 \<and>
   hd (fst (runGeminiFactCheck e ''10gm gold was 3000 Rs in 2015'' gold_2015)) =
     GenerateContent (geminiPrompt ''10gm gold was 3000 Rs in 2015'' gold_2015) \<and>
   hd (fst (normalizeTranscript e (exTranscript ''10gm gold was 3000 Rs in 2015'') a)) =
     GenerateContent (geminiPrompt ''10gm gold was 3000 Rs in 2015'' gold_2015) \<and>
   \<not> includesStr (geminiPrompt ''10gm gold was 3000 Rs in 2015'' gold_2015) gold_2015"
proof (intro conjI)
  show hint: "contextHint ''10gm gold was 3000 Rs in 2015'' a = gold_2015"
    by (simp add: contextHint_def startsWith_def)
  show "hd (fst (runGeminiFactCheck e ''10gm gold was 3000 Rs in 2015'' gold_2015)) =
     GenerateContent (geminiPrompt ''10gm gold was 3000 Rs in 2015'' gold_2015)"
    using runGeminiFactCheck_events_hd [of e _ _ "[]"] by simp
  have T: "combineText (collectSegments (exTranscript ''10gm gold was 3000 Rs in 2015''))
             = ''10gm gold was 3000 Rs in 2015''"
    by (simp add: ex_defs aggregator_defs)
  then have "combineText (collectSegments (exTranscript ''10gm gold was 3000 Rs in 2015'')) \<noteq> []"
    by simp
  from normalizeTranscript_events_hd [OF this, of e a] T hint
  show "hd (fst (normalizeTranscript e (exTranscript ''10gm gold was 3000 Rs in 2015'') a)) =
     GenerateContent (geminiPrompt ''10gm gold was 3000 Rs in 2015'' gold_2015)"
    by simp
  have "CHR ''/'' \<in> set gold_2015" by (simp add: gold_2015_def)
  with prompt_has_no_slash [of gold_2015] includesStr_set
  show "\<not> includesStr (geminiPrompt ''10gm gold was 3000 Rs in 2015'' gold_2015) gold_2015"
    by blast
qed

section \<open>The video-ID extractors are total\<close>

lemma matchAt_Some:
  "matchAt ps cap s = Some g \<Longrightarrow>
     \<exists>p. p \<in> set ps \<and> startsWithCI s p \<and> cap (drop (length p) s) = Some g"
  by (induction ps) (auto split: if_splits option.splits)

lemma matchAt_None:
  "matchAt ps cap s = None \<Longrightarrow> p \<in> set ps \<Longrightarrow> startsWithCI s p \<Longrightarrow>
     cap (drop (length p) s) = None"
  by (induction ps) (auto split: if_splits option.splits)

lemma regexMatch_Some: "regexMatch ps cap s = Some g \<Longrightarrow> captures ps cap s g"
proof (induction s)
  case Nil
  from matchAt_Some [of ps cap "[]" g] Nil show ?case
    unfolding captures_def by (metis append_Nil regexMatch.simps(1))
next
  case (Cons c cs)
  show ?case
  proof (cases "matchAt ps cap (c # cs)")
    case None
    with Cons have "captures ps cap cs g" by simp
    then obtain pre rest p where "cs = pre @ rest" "p \<in> set ps" "startsWithCI rest p"
      "cap (drop (length p) rest) = Some g"
      unfolding captures_def by blast
    then have "c # cs = (c # pre) @ rest \<and> p \<in> set ps \<and> startsWithCI rest p \<and>
      cap (drop (length p) rest) = Some g"
      by simp
    then show ?thesis unfolding captures_def by blast
  next
    case (Some g')
    with Cons have "g' = g" by simp
    with Some matchAt_Some [of ps cap "c # cs" g] show ?thesis
      unfolding captures_def by (metis append_Nil)
  qed
qed

lemma regexMatch_None: "regexMatch ps cap s = None \<Longrightarrow> \<not> captures ps cap s g"
proof (induction s)
  case Nil
  then show ?case
    unfolding captures_def using matchAt_None [of ps cap "[]"] by auto
next
  case (Cons c cs)
  then have m: "matchAt ps cap (c # cs) = None" and r: "regexMatch ps cap cs = None"
    by (auto split: option.splits)
  show ?case
  proof
    assume "captures ps cap (c # cs) g"
    then obtain pre rest p where h: "c # cs = pre @ rest" "p \<in> set ps" "startsWithCI rest p"
      "cap (drop (length p) rest) = Some g"
      unfolding captures_def by blast
    show False
    proof (cases pre)
      case Nil
      with h m matchAt_None [of ps cap "c # cs" p] show False by simp
    next
      case (Cons c' pre')
      with h have "cs = pre' @ rest" by simp
      with h have "captures ps cap cs g" unfolding captures_def by blast
      with Cons.IH [OF r] show False by simp
    qed
  qed
qed

text \<open>The match is the one at the leftmost position where an attempt succeeds.\<close>

lemma regexMatch_leftmost:
  "regexMatch ps cap s = Some g \<Longrightarrow>
     \<exists>pre rest. s = pre @ rest \<and> matchAt ps cap rest = Some g \<and>
       (\<forall>n < length pre. matchAt ps cap (drop n s) = None)"
proof (induction s)
  case Nil
  then show ?case by simp
next
  case (Cons c cs)
  show ?case
  proof (cases "matchAt ps cap (c # cs)")
    case None
    with Cons obtain pre rest where h: "cs = pre @ rest" "matchAt ps cap rest = Some g"
      "\<forall>n < length pre. matchAt ps cap (drop n cs) = None"
      by auto
    have "\<forall>n < length (c # pre). matchAt ps cap (drop n (c # cs)) = None"
    proof (intro allI impI)
      fix n assume "n < length (c # pre)"
      then show "matchAt ps cap (drop n (c # cs)) = None"
        using None h(3) by (cases n) auto
    qed
    with h have "c # cs = (c # pre) @ rest \<and> matchAt ps cap rest = Some g \<and>
       (\<forall>n < length (c # pre). matchAt ps cap (drop n (c # cs)) = None)"
      by simp
    then show ?thesis by blast
  next
    case (Some g')
    with Cons have "c # cs = [] @ (c # cs) \<and> matchAt ps cap (c # cs) = Some g \<and>
       (\<forall>n < length ([]::string). matchAt ps cap (drop n (c # cs)) = None)"
      by simp
    then show ?thesis by blast
  qed
qed

lemma capture11_Some:
  "capture11 s = Some g \<Longrightarrow> length g = 11 \<and> list_all idChar g \<and> g = take 11 s"
  by (auto simp: capture11_def split: if_splits)

lemma capturePlus_Some:
  "capturePlus s = Some g \<Longrightarrow> g \<noteq> [] \<and> list_all idChar g \<and> g = takeWhile idChar s"
  by (auto simp: capturePlus_def list_all_iff split: if_splits dest: set_takeWhileD)

lemma captures_youtube:
  "captures youtubeRegex capture11 s g \<Longrightarrow> length g = 11 \<and> list_all idChar g"
  unfolding captures_def using capture11_Some by blast

lemma captures_instagram:
  "captures instagramRegex capturePlus s g \<Longrightarrow> g \<noteq> [] \<and> list_all idChar g"
  unfolding captures_def using capturePlus_Some by blast

lemma extractId_try_cases:
  "extractId_try u regex cap s =
     (if \<not> u s then Inl TypeError
      else case regexMatch regex cap s of Some g \<Rightarrow> Inr g | None \<Rightarrow> Inr [])"
  by (simp add: extractId_try_def split: option.splits)

text \<open>
  An extractor returns a string: a captured group when the cleaned URL parses and matches
  the pattern, the empty string otherwise.
\<close>

lemma extractor_returns:
  assumes ex: "out = (case extractId_try u regex cap s of Inr g \<Rightarrow> Inr g | Inl err \<Rightarrow> Inr [])"
  shows "\<exists>g. out = (Inr g :: error + string) \<and>
          (if u s \<and> (\<exists>g'. captures regex cap s g') then captures regex cap s g else g = [])"
proof (cases "u s")
  case False
  with ex show ?thesis by (simp add: extractId_try_cases)
next
  case True
  show ?thesis
  proof (cases "regexMatch regex cap s")
    case None
    with True ex regexMatch_None [OF None] show ?thesis by (simp add: extractId_try_cases)
  next
    case (Some g)
    with True ex regexMatch_Some [OF Some] show ?thesis by (auto simp: extractId_try_cases)
  qed
qed

text \<open>Evaluation of the case-insensitive prefix test, character by character.\<close>

lemma startsWithCI_Nil: "startsWithCI s [] = True"
  by (simp add: startsWithCI_def)

lemma startsWithCI_Nil_Cons: "startsWithCI [] (p # ps) = False"
  by (simp add: startsWithCI_def)

lemma startsWithCI_Cons:
  "startsWithCI (c # cs) (p # ps) =
     (if toLowerAscii c = toLowerAscii p then startsWithCI cs ps else False)"
  by (auto simp: startsWithCI_def)

lemma toLowerAscii_table:
  "toLowerAscii c =
     (if c = CHR ''A'' then CHR ''a'' else if c = CHR ''B'' then CHR ''b'' else
      if c = CHR ''C'' then CHR ''c'' else if c = CHR ''D'' then CHR ''d'' else
      if c = CHR ''E'' then CHR ''e'' else if c = CHR ''F'' then CHR ''f'' else
      if c = CHR ''G'' then CHR ''g'' else if c = CHR ''H'' then CHR ''h'' else
      if c = CHR ''I'' then CHR ''i'' else if c = CHR ''J'' then CHR ''j'' else
      if c = CHR ''K'' then CHR ''k'' else if c = CHR ''L'' then CHR ''l'' else
      if c = CHR ''M'' then CHR ''m'' else if c = CHR ''N'' then CHR ''n'' else
      if c = CHR ''O'' then CHR ''o'' else if c = CHR ''P'' then CHR ''p'' else
      if c = CHR ''Q'' then CHR ''q'' else if c = CHR ''R'' then CHR ''r'' else
      if c = CHR ''S'' then CHR ''s'' else if c = CHR ''T'' then CHR ''t'' else
      if c = CHR ''U'' then CHR ''u'' else if c = CHR ''V'' then CHR ''v'' else
      if c = CHR ''W'' then CHR ''w'' else if c = CHR ''X'' then CHR ''x'' else
      if c = CHR ''Y'' then CHR ''y'' else if c = CHR ''Z'' then CHR ''z'' else c)"
  by (simp add: toLowerAscii_def)

lemmas extract_eval =
  extractYouTubeId_def extractInstagramId_def extractId_try_def cleanURL_def
  trim_def isWhiteSpace_def startsWith_def startsWithCI_Nil startsWithCI_Nil_Cons startsWithCI_Cons
  toLowerAscii_table idChar_def capture11_def capturePlus_def youtubeRegex_def youtubePaths_def
  instagramRegex_def

text \<open>
  C10. For every input string, and whatever the platform's URL parser accepts, both
  extractors return a string and never raise. When the cleaned URL parses and matches the
  platform pattern, the string is a captured group of the pattern: exactly 11 ID characters
  for YouTube, one ID character or more for Instagram. When the cleaned URL does not parse
  or does not match, the string is empty.
\<close>

theorem extractors_total:
  "(\<exists>g. extractYouTubeId u v = Inr g \<and>
        (if u (cleanURL v) \<and> (\<exists>g'. captures youtubeRegex capture11 (cleanURL v) g')
         then captures youtubeRegex capture11 (cleanURL v) g \<and> length g = 11 \<and> list_all idChar g
         else g = [])) \<and>
   (\<exists>g. extractInstagramId u v = Inr g \<and>
        (if u (cleanURL v) \<and> (\<exists>g'. captures instagramRegex capturePlus (cleanURL v) g')
         then captures instagramRegex capturePlus (cleanURL v) g \<and> g \<noteq> [] \<and> list_all idChar g
         else g = []))"
proof
  obtain g where g: "extractYouTubeId u v = Inr g"
    "if u (cleanURL v) \<and> (\<exists>g'. captures youtubeRegex capture11 (cleanURL v) g')
     then captures youtubeRegex capture11 (cleanURL v) g else g = []"
    using extractor_returns [where out = "extractYouTubeId u v" and u = u and s = "cleanURL v"
        and regex = youtubeRegex and cap = capture11, OF extractYouTubeId_def]
    by blast
  from g(2) captures_youtube [of "cleanURL v" g]
  have "if u (cleanURL v) \<and> (\<exists>g'. captures youtubeRegex capture11 (cleanURL v) g')
        then captures youtubeRegex capture11 (cleanURL v) g \<and> length g = 11 \<and> list_all idChar g
        else g = []"
    by (simp split: if_splits)
  with g(1) show "\<exists>g. extractYouTubeId u v = Inr g \<and>
        (if u (cleanURL v) \<and> (\<exists>g'. captures youtubeRegex capture11 (cleanURL v) g')
         then captures youtubeRegex capture11 (cleanURL v) g \<and> length g = 11 \<and> list_all idChar g
         else g = [])"
    by blast
next
  obtain g where g: "extractInstagramId u v = Inr g"
    "if u (cleanURL v) \<and> (\<exists>g'. captures instagramRegex capturePlus (cleanURL v) g')
     then captures instagramRegex capturePlus (cleanURL v) g else g = []"
    using extractor_returns [where out = "extractInstagramId u v" and u = u and s = "cleanURL v"
        and regex = instagramRegex and cap = capturePlus, OF extractInstagramId_def]
    by blast
  from g(2) captures_instagram [of "cleanURL v" g]
  have "if u (cleanURL v) \<and> (\<exists>g'. captures instagramRegex capturePlus (cleanURL v) g')
        then captures instagramRegex capturePlus (cleanURL v) g \<and> g \<noteq> [] \<and> list_all idChar g
        else g = []"
    by (simp split: if_splits)
  with g(1) show "\<exists>g. extractInstagramId u v = Inr g \<and>
        (if u (cleanURL v) \<and> (\<exists>g'. captures instagramRegex capturePlus (cleanURL v) g')
         then captures instagramRegex capturePlus (cleanURL v) g \<and> g \<noteq> [] \<and> list_all idChar g
         else g = [])"
    by blast
qed

theorem extractors_total_witness:
  "extractYouTubeId (\<lambda>s. True) ''http://youtu.be/dQw4w9WgXcQ?t=3'' = Inr ''dQw4w9WgXcQ'' \<and>
   extractYouTubeId (\<lambda>s. False) ''http://youtu.be/dQw4w9WgXcQ?t=3'' = Inr [] \<and>
   extractInstagramId (\<lambda>s. True) '' instagram.com/P/Cx9_a-B/ '' = Inr ''Cx9_a-B'' \<and>
   extractInstagramId (\<lambda>s. True) ''youtu.be/x'' = Inr []"
  using extractors_total [of "\<lambda>s. True" "''http://youtu.be/dQw4w9WgXcQ?t=3''"]
  by (simp add: extract_eval)

end
